theory Spec2Isabelle
  imports Main
begin

section \<open>The file-system controller of the daemon (src/controllers/fs.js)\<close>

text \<open>
  The controller is a JavaScript class \<^verbatim>\<open>FileSystem\<close> whose methods take a
  completion callback \<^verbatim>\<open>next\<close>.  A method is modelled by the list of things it
  does, in the order it does them: the operations it hands to the Node libraries
  (\<^verbatim>\<open>Fs.move\<close>, \<^verbatim>\<open>Fs.copy\<close>, the archive engines) and its calls of \<^verbatim>\<open>next\<close>.
  The libraries themselves (fs-extra, async, lodash, mmmagic, decompress, tar-fs) and the
  owning server object are not part of the controller; their answers are parameters of the
  model.
\<close>

subsection \<open>JavaScript values\<close>

text \<open>
  The arguments of the controller are untyped: a path may be a string, an array of strings,
  or anything else a caller passes.  \<open>Fn\<close> stands for a function value (the callback,
  when an optional argument is left out).
\<close>

datatype jsval =
    Undefined
  | Null
  | Bool bool
  | Num int
  | Str string
  | Arr "jsval list"
  | Obj "(string \<times> jsval) list"
  | Fn

text \<open>lodash's \<^verbatim>\<open>_.isArray\<close>, \<^verbatim>\<open>_.isString\<close>, \<^verbatim>\<open>_.isFunction\<close>, \<^verbatim>\<open>_.isUndefined\<close>.\<close>

fun isArray :: "jsval \<Rightarrow> bool" where
  "isArray (Arr _) = True"
| "isArray _ = False"

fun isString :: "jsval \<Rightarrow> bool" where
  "isString (Str _) = True"
| "isString _ = False"

fun isFunction :: "jsval \<Rightarrow> bool" where
  "isFunction Fn = True"
| "isFunction _ = False"

fun isUndefined :: "jsval \<Rightarrow> bool" where
  "isUndefined Undefined = True"
| "isUndefined _ = False"

text \<open>
  Truthiness, and the operator \<^verbatim>\<open>a || b\<close>, which gives \<open>a\<close> when \<open>a\<close> is truthy
  and \<open>b\<close> otherwise.
\<close>

fun truthy :: "jsval \<Rightarrow> bool" where
  "truthy Undefined = False"
| "truthy Null = False"
| "truthy (Bool b) = b"
| "truthy (Num n) = (n \<noteq> 0)"
| "truthy (Str s) = (s \<noteq> [])"
| "truthy (Arr _) = True"
| "truthy (Obj _) = True"
| "truthy Fn = True"

definition js_or :: "jsval \<Rightarrow> jsval \<Rightarrow> jsval" where
  "js_or a b = (if truthy a then a else b)"

text \<open>
  \<^verbatim>\<open>xs[k]\<close> on an array: the element, or \<^verbatim>\<open>undefined\<close> past the end.
\<close>

definition js_index :: "jsval list \<Rightarrow> nat \<Rightarrow> jsval" where
  "js_index xs k = (if k < length xs then xs ! k else Undefined)"

text \<open>
  \<^verbatim>\<open>o.key\<close> on an options value: the stored value of an object, \<^verbatim>\<open>undefined\<close> for a
  key the object does not have and for the primitive values; reading a property of
  \<^verbatim>\<open>undefined\<close> or \<^verbatim>\<open>null\<close> throws (\<open>None\<close>).
\<close>

fun js_prop :: "jsval \<Rightarrow> string \<Rightarrow> jsval option" where
  "js_prop Undefined k = None"
| "js_prop Null k = None"
| "js_prop (Obj kvs) k = (case map_of kvs k of None \<Rightarrow> Some Undefined | Some v \<Rightarrow> Some v)"
| "js_prop _ k = Some Undefined"

subsection \<open>Strings\<close>

text \<open>
  \<^verbatim>\<open>_.startsWith(s, t)\<close>; \<^verbatim>\<open>s.slice(n)\<close> is \<open>drop n s\<close>.
\<close>

definition startsWith :: "string \<Rightarrow> string \<Rightarrow> bool" where
  "startsWith s t = (take (length t) s = t)"

text \<open>
  \<^verbatim>\<open>_.replace(s, pat, rep)\<close> with a string pattern replaces the first occurrence of
  \<open>pat\<close> in \<open>s\<close>, scanning from the left.
\<close>

fun replace :: "string \<Rightarrow> string \<Rightarrow> string \<Rightarrow> string" where
  "replace [] pat rep = (if pat = [] then rep else [])"
| "replace (c # cs) pat rep =
     (if startsWith (c # cs) pat then rep @ drop (length pat) (c # cs)
      else c # replace cs pat rep)"

text \<open>
  \<^verbatim>\<open>_.lastIndexOf(s, '/')\<close> and \<^verbatim>\<open>s.substring(0, i)\<close>: the index of the last
  \<open>/\<close> or \<open>-1\<close>, and the prefix up to it (\<^verbatim>\<open>substring\<close> reads a negative
  index as 0).
\<close>

fun lastIndexOf :: "string \<Rightarrow> char \<Rightarrow> int" where
  "lastIndexOf [] c = -1"
| "lastIndexOf (x # xs) c =
     (let r = lastIndexOf xs c in
      if r \<noteq> -1 then r + 1 else if x = c then 0 else -1)"

definition substring0 :: "string \<Rightarrow> int \<Rightarrow> string" where
  "substring0 s i = take (nat i) s"

subsection \<open>Errors\<close>

text \<open>
  The errors the controller creates itself, one constructor for each
  \<^verbatim>\<open>new Error(...)\<close> of the source, and \<open>External\<close> for an error handed back by a
  library, with its message.
\<close>

datatype error =
    SelfMove
  | TypeMismatch
  | LengthMismatch
  | InvalidDatatype
  | NotAFile
  | TooLarge
  | HomeFolder
  | ToNotString
  | SelfCompress
  | NoValidEntries
  | NotADirectory
  | External string

fun message :: "error \<Rightarrow> string" where
  "message SelfMove = ''You cannot move a file or folder into itself.''"
| "message TypeMismatch =
     ''Values passed to move function must be of the same type (string, string) or (array, array).''"
| "message LengthMismatch =
     ''The number of starting values does not match the number of ending values.''"
| "message InvalidDatatype = ''Invalid datatype passed to decompression function.''"
| "message NotAFile = ''The file requested does not appear to be a file.''"
| "message TooLarge = ''This file is too large to open.''"
| "message HomeFolder = ''You cannot delete your home folder.''"
| "message ToNotString =
     ''The to field must be a string for the folder in which the file should be saved.''"
| "message SelfCompress = ''Unable to compress folder into itself.''"
| "message NoValidEntries = ''None of the files passed to the command were valid.''"
| "message NotADirectory = ''The path requested is not a valid directory on the system.''"
| "message (External m) = m"

subsection \<open>The path resolver and the self-containment check\<close>

text \<open>
  \<^verbatim>\<open>this.server.path\<close> belongs to the server object and is a parameter \<open>p\<close> of every
  operation: \<open>p v\<close> is the absolute path for the argument \<open>v\<close>, and \<open>p Undefined\<close>
  is the call without argument, the sandbox root.
\<close>

type_synonym resolver = "jsval \<Rightarrow> string"

definition isSelf :: "resolver \<Rightarrow> jsval \<Rightarrow> jsval \<Rightarrow> bool" where
  "isSelf p moveTo moveFrom =
     (let target = p moveTo;
          source = p moveFrom
      in if \<not> startsWith target source then False
         else let end = drop (length source) target
              in if end = [] then True
                 else startsWith end ''/'')"

text \<open>
  Modelled from the spec: \<^verbatim>\<open>server.path\<close>, the method of the server object that
  the controller calls for every path, is not among the sources.  The spec (4.1, 6) gives it
  as a pure function that anchors its argument under the sandbox root by joining and never
  raises; the call without argument gives the root.  JavaScript turns a non-string argument
  into a string first, an array into its elements separated by commas.  This resolver is
  used for concrete inputs only; the general statements hold for every resolver.
\<close>

fun digits :: "nat \<Rightarrow> string" where
  "digits n =
     (if n < 10 then [char_of (48 + n)] else digits (n div 10) @ [char_of (48 + n mod 10)])"

fun commas :: "string list \<Rightarrow> string" where
  "commas [] = []"
| "commas [s] = s"
| "commas (s # t # ss) = s @ '','' @ commas (t # ss)"

fun toString :: "jsval \<Rightarrow> string"
  and elemString :: "jsval \<Rightarrow> string"
  and elemStrings :: "jsval list \<Rightarrow> string list" where
  "toString Undefined = ''undefined''"
| "toString Null = ''null''"
| "toString (Bool b) = (if b then ''true'' else ''false'')"
| "toString (Num n) = (if n < 0 then ''-'' @ digits (nat (- n)) else digits (nat n))"
| "toString (Str s) = s"
| "toString (Arr xs) = commas (elemStrings xs)"
| "toString (Obj kvs) = ''[object Object]''"
| "toString Fn = ''function () {}''"
| "elemString x = (if x = Undefined \<or> x = Null then [] else toString x)"
| "elemStrings [] = []"
| "elemStrings (x # xs) = elemString x # elemStrings xs"

definition server_path :: "string \<Rightarrow> resolver" where
  "server_path root v = (if isUndefined v then root else root @ ''/'' @ toString v)"

subsection \<open>What an operation does\<close>

text \<open>
  The metadata record that \<^verbatim>\<open>Fs.stat\<close> gives, and the one the controller answers
  with.  Times are numbers.
\<close>

record stats =
  st_isFile :: bool
  st_isDirectory :: bool
  st_isSymbolicLink :: bool
  st_size :: nat
  st_ctime :: nat
  st_mtime :: nat
  st_birthtime :: nat

record file_metadata =
  md_name :: string
  md_created :: nat
  md_modified :: nat
  md_size :: nat
  md_directory :: bool
  md_file :: bool
  md_symlink :: bool
  md_mime :: string

text \<open>
  The requests handed to the libraries.  \<open>CreateWriteStream dir name\<close> is the stream
  opened on \<^verbatim>\<open>Path.join(dir, name)\<close>; \<open>TarPack dir entries\<close> is
  \<^verbatim>\<open>Tar.pack(dir, {entries: ...})\<close>, with \<open>None\<close> when no entry list is given;
  \<open>Extract from to\<close> is \<^verbatim>\<open>decompressEngine(from, to, {strip: 1})\<close>.
\<close>

datatype action =
    FsMove string string
  | FsCopy string string jsval jsval
  | Extract string string
  | CreateWriteStream string string
  | TarPack string "string list option"

datatype payload =
    NoValue
  | Text string
  | Meta file_metadata
  | Listing "file_metadata list"

text \<open>
  \<open>Next err v\<close> is one call \<^verbatim>\<open>next(err, v)\<close> of the caller's callback, \<open>Throw e\<close>
  an exception of the runtime that leaves the operation: a \<^verbatim>\<open>TypeError\<close> for reading a
  property of \<^verbatim>\<open>undefined\<close>, a \<^verbatim>\<open>RangeError\<close> for a stream whose start lies
  behind its end, and the error \<^verbatim>\<open>Callback was already called.\<close> that async throws when
  a callback it has wrapped in \<^verbatim>\<open>onlyOnce\<close> is called a second time.

  A text (a JavaScript string) is written as the bytes of its UTF-8 encoding.
\<close>

datatype exn = RangeError | TypeError | CallbackAlreadyCalled

datatype event =
    Issued action
  | Next "error option" payload
  | Throw exn

text \<open>The answer of the library to a request: \<open>None\<close> for success, or its error.\<close>

type_synonym io = "action \<Rightarrow> error option"

subsection \<open>copy\<close>

definition copy :: "io \<Rightarrow> resolver \<Rightarrow> jsval \<Rightarrow> jsval \<Rightarrow> jsval \<Rightarrow> event list" where
  "copy io p path newpath opts0 =
     (let opts = (if isFunction opts0 then Obj [] else opts0) in
      case js_prop opts ''clobber'' of
        None \<Rightarrow> [Throw TypeError]
      | Some c \<Rightarrow>
          (case js_prop opts ''timestamps'' of
             None \<Rightarrow> [Throw TypeError]
           | Some t \<Rightarrow>
               (let a = FsCopy (p path) (p newpath) (js_or c (Bool False)) (js_or t (Bool False))
                in [Issued a, Next (io a) NoValue])))"

subsection \<open>readEnd\<close>









subsection \<open>The watcher of the configuration file\<close>

text \<open>
  The constructor registers a handler for the watcher's \<^verbatim>\<open>change\<close> event.  The state
  it works on: the server's in-memory document \<^verbatim>\<open>server.json\<close>, its flag
  \<^verbatim>\<open>server.knownWrite\<close>, the text of the file on disk, the log, and the
  \<^verbatim>\<open>Fs.writeJson\<close> requests made so far.
\<close>

datatype severity = Debug | Warn | Fatal

record server =
  json :: jsval
  knownWrite :: bool
  config_file :: string
  log :: "severity list"
  writes :: "jsval list"

text \<open>
  \<open>readJson\<close> is \<^verbatim>\<open>Fs.readJson\<close> on the text of the file (the document, or the
  error of reading or parsing it), \<open>stringify\<close> the text \<^verbatim>\<open>Fs.writeJson\<close> writes for a
  document, and \<open>writeErr\<close> the answer of that write.
\<close>

definition undo_changes :: "(jsval \<Rightarrow> string) \<Rightarrow> error option \<Rightarrow> server \<Rightarrow> server" where
  "undo_changes stringify writeErr s =
     (let s1 = s\<lparr>log := log s @ [Warn]\<rparr>;
          s2 = s1\<lparr>knownWrite := True\<rparr>;
          s3 = s2\<lparr>writes := writes s2 @ [json s2]\<rparr>
      in case writeErr of
           None \<Rightarrow> s3\<lparr>config_file := stringify (json s3), log := log s3 @ [Debug]\<rparr>
         | Some e \<Rightarrow> s3\<lparr>log := log s3 @ [Fatal]\<rparr>)"

definition readJson_callback ::
  "(jsval \<Rightarrow> string) \<Rightarrow> error option \<Rightarrow> error + jsval \<Rightarrow> server \<Rightarrow> server" where
  "readJson_callback stringify writeErr r s =
     (case r of
        Inl err \<Rightarrow> undo_changes stringify writeErr s
      | Inr object \<Rightarrow> s\<lparr>json := object\<rparr>)"

text \<open>
  The handler starts the read when the flag is not set and clears the flag at once; the
  callback of the read runs after the handler has returned.
\<close>

definition on_change ::
  "(string \<Rightarrow> error + jsval) \<Rightarrow> (jsval \<Rightarrow> string) \<Rightarrow> error option \<Rightarrow> server \<Rightarrow> server" where
  "on_change readJson stringify writeErr s =
     (if knownWrite s \<noteq> True then
        (let s1 = s\<lparr>log := log s @ [Debug]\<rparr>;
             s2 = s1\<lparr>knownWrite := False\<rparr>
         in readJson_callback stringify writeErr (readJson (config_file s2)) s2)
      else s\<lparr>knownWrite := False\<rparr>)"

subsection \<open>compress\<close>

text \<open>
  \<open>token\<close> is the string \<^verbatim>\<open>RandomString.generate(8)\<close> returns.  \<open>stream\<close> is the
  list of the events the write stream emits, in their order: \<^verbatim>\<open>close\<close> alone when the
  archive has been written, \<^verbatim>\<open>error\<close> (and then, as a rule, \<^verbatim>\<open>close\<close>) when it
  has not.
\<close>

datatype stream_event = StreamError error | StreamClose

definition SaveAsName :: "string \<Rightarrow> string" where
  "SaveAsName token = ''ptdlfm.'' @ token @ ''.tar''"

text \<open>
  The single form registers \<^verbatim>\<open>next\<close> itself for \<^verbatim>\<open>error\<close> and a call of
  \<^verbatim>\<open>next(null, SaveAsName)\<close> for \<^verbatim>\<open>close\<close>.
\<close>

fun single_handlers :: "string \<Rightarrow> stream_event \<Rightarrow> event" where
  "single_handlers nm (StreamError e) = Next (Some e) NoValue"
| "single_handlers nm StreamClose = Next None (Text nm)"

text \<open>
  The array form registers the callback of its second \<^verbatim>\<open>Async.series\<close> step for both
  events.  Its first call ends the series, whose final callback is
  \<^verbatim>\<open>next(err, SaveAsName)\<close>; the callback is wrapped in \<^verbatim>\<open>onlyOnce\<close>, so a second
  event throws.
\<close>

fun series_callback :: "string \<Rightarrow> stream_event list \<Rightarrow> event list" where
  "series_callback nm [] = []"
| "series_callback nm (ev # rest) =
     Next (case ev of StreamError e \<Rightarrow> Some e | StreamClose \<Rightarrow> None) (Text nm)
     # (if rest = [] then [] else [Throw CallbackAlreadyCalled])"

text \<open>
  The first step of the array form goes through the sources in order (its iteratee calls
  back at once, so \<^verbatim>\<open>Async.eachLimit\<close> takes one source after the other) and pushes
  onto \<^verbatim>\<open>FileEntries\<close>.
\<close>

fun collect_entries :: "resolver \<Rightarrow> jsval \<Rightarrow> jsval list \<Rightarrow> string list \<Rightarrow> string list" where
  "collect_entries p to [] FileEntries = FileEntries"
| "collect_entries p to (file # files) FileEntries =
     (if isSelf p to file then collect_entries p to files FileEntries
      else collect_entries p to files (FileEntries @ [replace (p file) (p Undefined) []]))"

definition compress ::
  "resolver \<Rightarrow> string \<Rightarrow> stream_event list \<Rightarrow> jsval \<Rightarrow> jsval \<Rightarrow> event list" where
  "compress p token stream files to =
     (if \<not> isString to then [Next (Some ToNotString) NoValue]
      else if \<not> isArray files then
        (if isSelf p to files then [Next (Some SelfCompress) NoValue]
         else [Issued (CreateWriteStream (p to) (SaveAsName token)),
               Issued (TarPack (p files) None)]
              @ map (single_handlers (SaveAsName token)) stream)
      else
        (case files of
           Arr fs \<Rightarrow>
             (let FileEntries = collect_entries p to fs [] in
              if FileEntries = [] then [Next (Some NoValidEntries) NoValue]
              else [Issued (CreateWriteStream (p to) (SaveAsName token)),
                    Issued (TarPack (p Undefined) (Some FileEntries))]
                   @ series_callback (SaveAsName token) stream)
         | _ \<Rightarrow> [Next (Some InvalidDatatype) NoValue]))"

subsection \<open>Async.eachOfLimit\<close>

text \<open>
  \<^verbatim>\<open>Async.eachOfLimit(coll, limit, iteratee, callback)\<close> of async 2.4.1, the library the
  batch forms of move and decompress run on.  It keeps a count \<open>running\<close> of the
  iteratees that have not called back and a flag \<^verbatim>\<open>done\<close> (\<open>done_flag\<close>); its \<^verbatim>\<open>replenish\<close> starts
  iteratees while \<open>running < limit\<close> and the flag is not set; the callback given to an
  iteratee lowers \<open>running\<close> and either finishes (on an error, or when nothing is left
  and nothing runs) or replenishes.  The final callback is wrapped in \<^verbatim>\<open>once\<close>.

  What an iteratee of the controller does with an element is one of: it calls its callback
  at once; it calls \<^verbatim>\<open>next\<close> directly and never calls its callback; it hands a request
  to a library, whose answer later decides which of the two it does.
\<close>

datatype reaction =
    Callback "error option"
  | DirectNext "error option"

datatype started =
    Sync reaction
  | Async action "error option \<Rightarrow> reaction"

record each_state =
  running :: int
  done_flag :: bool
  called :: bool
  inflight :: "(action \<times> (error option \<Rightarrow> reaction)) list"
  trace :: "event list"

definition final_callback :: "error option \<Rightarrow> each_state \<Rightarrow> each_state" where
  "final_callback err st =
     (if called st then st
      else st\<lparr>called := True, trace := trace st @ [Next err NoValue]\<rparr>)"

definition iterateeCallback :: "error option \<Rightarrow> each_state \<Rightarrow> each_state" where
  "iterateeCallback err st =
     (let st1 = st\<lparr>running := running st - 1\<rparr> in
      case err of
        Some e \<Rightarrow> final_callback (Some e) (st1\<lparr>done_flag := True\<rparr>)
      | None \<Rightarrow>
          if done_flag st1 \<and> running st1 \<le> 0 then final_callback None (st1\<lparr>done_flag := True\<rparr>)
          else st1)"

definition react :: "reaction \<Rightarrow> each_state \<Rightarrow> each_state" where
  "react r st =
     (case r of
        Callback err \<Rightarrow> iterateeCallback err st
      | DirectNext err \<Rightarrow> st\<lparr>trace := trace st @ [Next err NoValue]\<rparr>)"

definition launch :: "started \<Rightarrow> each_state \<Rightarrow> each_state" where
  "launch s st =
     (case s of
        Sync r \<Rightarrow> react r st
      | Async a h \<Rightarrow> st\<lparr>inflight := inflight st @ [(a, h)], trace := trace st @ [Issued a]\<rparr>)"

text \<open>
  \<^verbatim>\<open>replenish\<close>: the loop over the elements not yet taken, given with their keys.  An
  iteratee that calls back at once re-enters \<^verbatim>\<open>replenish\<close> from inside the loop; the
  inner run takes elements under the same condition as the loop it returns to, so both are
  the one loop here.
\<close>

fun replenish ::
  "int \<Rightarrow> (nat \<Rightarrow> jsval \<Rightarrow> started) \<Rightarrow> (nat \<times> jsval) list \<Rightarrow> each_state
     \<Rightarrow> (nat \<times> jsval) list \<times> each_state" where
  "replenish limit iteratee [] st =
     (if running st < limit \<and> \<not> done_flag st then
        (let st1 = st\<lparr>done_flag := True\<rparr> in
         ([], if running st1 \<le> 0 then final_callback None st1 else st1))
      else ([], st))"
| "replenish limit iteratee ((key, val) # rest) st =
     (if running st < limit \<and> \<not> done_flag st then
        replenish limit iteratee rest (launch (iteratee key val) (st\<lparr>running := running st + 1\<rparr>))
      else ((key, val) # rest, st))"

text \<open>
  A request in flight is answered at some later time, in any order.  A schedule is the list
  of the positions, among the requests in flight, of the ones answered next; \<open>io\<close> gives
  the answers.  After a \<open>Callback\<close> without error the library replenishes.
\<close>

definition remove_nth :: "nat \<Rightarrow> 'a list \<Rightarrow> 'a list" where
  "remove_nth i xs = take i xs @ drop (Suc i) xs"

fun settle ::
  "int \<Rightarrow> (nat \<Rightarrow> jsval \<Rightarrow> started) \<Rightarrow> io \<Rightarrow> nat list \<Rightarrow> (nat \<times> jsval) list \<times> each_state
     \<Rightarrow> (nat \<times> jsval) list \<times> each_state" where
  "settle limit iteratee io [] qs = qs"
| "settle limit iteratee io (i # sched) (queue, st) =
     (if i < length (inflight st) then
        (let (a, h) = inflight st ! i;
             st1 = st\<lparr>inflight := remove_nth i (inflight st)\<rparr>
         in case h (io a) of
              Callback err \<Rightarrow>
                settle limit iteratee io sched (replenish limit iteratee queue (iterateeCallback err st1))
            | DirectNext err \<Rightarrow>
                settle limit iteratee io sched (queue, react (DirectNext err) st1))
      else settle limit iteratee io sched (queue, st))"

definition eachOfLimit ::
  "jsval list \<Rightarrow> int \<Rightarrow> (nat \<Rightarrow> jsval \<Rightarrow> started) \<Rightarrow> io \<Rightarrow> nat list
     \<Rightarrow> (nat \<times> jsval) list \<times> each_state" where
  "eachOfLimit coll limit iteratee io sched =
     (let st0 = \<lparr>running = 0, done_flag = False, called = False, inflight = [], trace = []\<rparr> in
      if limit \<le> 0 then ([], final_callback None st0)
      else settle limit iteratee io sched
             (replenish limit iteratee (zip [0..<length coll] coll) st0))"

subsection \<open>move\<close>

text \<open>
  The callback given to \<^verbatim>\<open>Fs.move\<close>: an error whose message starts with
  \<^verbatim>\<open>EEXIST:\<close> counts as success.
\<close>

definition move_done :: "error option \<Rightarrow> error option" where
  "move_done err =
     (case err of
        Some e \<Rightarrow> if \<not> startsWith (message e) ''EEXIST:'' then Some e else None
      | None \<Rightarrow> None)"

definition move_iteratee ::
  "resolver \<Rightarrow> jsval list \<Rightarrow> jsval list \<Rightarrow> nat \<Rightarrow> jsval \<Rightarrow> started" where
  "move_iteratee p initial ending key val =
     (if isUndefined (js_index ending key) then Sync (Callback (Some LengthMismatch))
      else if isSelf p (Arr ending) (Arr initial) then Sync (DirectNext (Some SelfMove))
      else Async (FsMove (p val) (p (js_index ending key))) (\<lambda>err. Callback (move_done err)))"

definition move :: "resolver \<Rightarrow> io \<Rightarrow> nat list \<Rightarrow> jsval \<Rightarrow> jsval \<Rightarrow> event list" where
  "move p io sched initial ending =
     (if \<not> isArray initial \<and> \<not> isArray ending then
        (if isSelf p ending initial then [Next (Some SelfMove) NoValue]
         else (let a = FsMove (p initial) (p ending)
               in [Issued a, Next (move_done (io a)) NoValue]))
      else if \<not> isArray initial \<or> \<not> isArray ending then [Next (Some TypeMismatch) NoValue]
      else
        (case (initial, ending) of
           (Arr is, Arr es) \<Rightarrow> trace (snd (eachOfLimit is 5 (move_iteratee p is es) io sched))
         | _ \<Rightarrow> []))"

subsection \<open>decompress\<close>

definition toDir :: "string \<Rightarrow> string" where
  "toDir fromFile = substring0 fromFile (lastIndexOf fromFile CHR ''/'')"

text \<open>
  The promise of the engine: in the array form its \<^verbatim>\<open>then\<close> calls \<^verbatim>\<open>next\<close> and its
  \<^verbatim>\<open>catch\<close> calls the callback of the iteratee.
\<close>

definition decompress_iteratee :: "resolver \<Rightarrow> nat \<Rightarrow> jsval \<Rightarrow> started" where
  "decompress_iteratee p key file =
     (let fromFile = p file in
      Async (Extract fromFile (toDir fromFile))
        (\<lambda>r. case r of None \<Rightarrow> DirectNext None | Some e \<Rightarrow> Callback (Some e)))"

definition decompress :: "resolver \<Rightarrow> io \<Rightarrow> nat list \<Rightarrow> jsval \<Rightarrow> event list" where
  "decompress p io sched files =
     (if \<not> isArray files then
        (let fromFile = p files;
             a = Extract fromFile (toDir fromFile)
         in [Issued a, Next (io a) NoValue])
      else if isArray files then
        (case files of
           Arr fs \<Rightarrow> trace (snd (eachOfLimit fs 5 (decompress_iteratee p) io sched))
         | _ \<Rightarrow> [])
      else [Next (Some InvalidDatatype) NoValue])"

subsection \<open>stat and directory\<close>

text \<open>
  \<open>detectFile\<close> is \<^verbatim>\<open>Mime.detectFile\<close>: the MIME type of the file at a path, or the
  error of the detection.  \<open>base\<close> is \<^verbatim>\<open>Path.parse(s).base\<close> and \<open>path_join\<close> is
  \<^verbatim>\<open>Path.join\<close>, both for paths that are already normal and do not end in a
  separator.
\<close>

definition base :: "string \<Rightarrow> string" where
  "base s = drop (nat (lastIndexOf s CHR ''/'' + 1)) s"

definition path_join :: "string \<Rightarrow> string \<Rightarrow> string" where
  "path_join a b = a @ ''/'' @ b"

definition mime_or_unknown :: "error + string \<Rightarrow> string" where
  "mime_or_unknown r =
     (case r of Inl mimeErr \<Rightarrow> ''unknown'' | Inr result \<Rightarrow> if result \<noteq> [] then result else ''unknown'')"

text \<open>
  When \<^verbatim>\<open>Fs.stat\<close> fails, \<^verbatim>\<open>next(err)\<close> is called and the function goes on: the
  callback of the detection then reads a field of the missing \<^verbatim>\<open>stat\<close>.
\<close>

definition stat ::
  "resolver \<Rightarrow> (string \<Rightarrow> error + stats) \<Rightarrow> (string \<Rightarrow> error + string) \<Rightarrow> jsval \<Rightarrow> event list" where
  "stat p fs_stat detectFile f =
     (case fs_stat (p f) of
        Inl err \<Rightarrow> [Next (Some err) NoValue, Throw TypeError]
      | Inr s \<Rightarrow>
          [Next None (Meta
             \<lparr>md_name = base (p f),
              md_created = st_ctime s,
              md_modified = st_mtime s,
              md_size = st_size s,
              md_directory = st_isDirectory s,
              md_file = st_isFile s,
              md_symlink = st_isSymbolicLink s,
              md_mime = mime_or_unknown (detectFile (p f))\<rparr>)])"

text \<open>
  The third step of the listing: for every child \<^verbatim>\<open>Async.auto\<close> runs \<^verbatim>\<open>do_stat\<close> and
  \<^verbatim>\<open>do_mime\<close>, each passing its error on, and \<^verbatim>\<open>do_push\<close> once both have
  succeeded; the first error ends \<^verbatim>\<open>Async.each\<close>.  The children are taken to answer in
  the order of the listing.  The result is the error, if any, and \<^verbatim>\<open>responseFiles\<close> as
  it is then.
\<close>

fun each_item ::
  "(string \<Rightarrow> error + stats) \<Rightarrow> (string \<Rightarrow> error + string) \<Rightarrow> string \<Rightarrow> string list
     \<Rightarrow> file_metadata list \<Rightarrow> error option \<times> file_metadata list" where
  "each_item fs_stat detectFile dir [] responseFiles = (None, responseFiles)"
| "each_item fs_stat detectFile dir (item # items) responseFiles =
     (case fs_stat (path_join dir item) of
        Inl statErr \<Rightarrow> (Some statErr, responseFiles)
      | Inr do_stat \<Rightarrow>
          (case detectFile (path_join dir item) of
             Inl mimeErr \<Rightarrow> (Some mimeErr, responseFiles)
           | Inr do_mime \<Rightarrow>
               each_item fs_stat detectFile dir items
                 (responseFiles @
                  [\<lparr>md_name = item,
                    md_created = st_birthtime do_stat,
                    md_modified = st_mtime do_stat,
                    md_size = st_size do_stat,
                    md_directory = st_isDirectory do_stat,
                    md_file = st_isFile do_stat,
                    md_symlink = st_isSymbolicLink do_stat,
                    md_mime = (if do_mime \<noteq> [] then do_mime else ''unknown'')\<rparr>])))"

text \<open>
  \<open>sortBy\<close> is lodash's \<^verbatim>\<open>_.sortBy\<close> with the two keys of the source, the lower-cased
  name and the creation time.
\<close>

definition directory ::
  "resolver \<Rightarrow> (string \<Rightarrow> error + stats) \<Rightarrow> (string \<Rightarrow> error + string list)
     \<Rightarrow> (string \<Rightarrow> error + string) \<Rightarrow> (file_metadata list \<Rightarrow> file_metadata list)
     \<Rightarrow> jsval \<Rightarrow> event list" where
  "directory p fs_stat readdir detectFile sortBy path =
     (case fs_stat (p path) of
        Inl err \<Rightarrow> [Next (Some err) (Listing (sortBy []))]
      | Inr s \<Rightarrow>
          if \<not> st_isDirectory s then [Next (Some NotADirectory) (Listing (sortBy []))]
          else
            (case readdir (p path) of
               Inl err \<Rightarrow> [Next (Some err) (Listing (sortBy []))]
             | Inr files \<Rightarrow>
                 (case each_item fs_stat detectFile (p path) files [] of
                    (err, responseFiles) \<Rightarrow> [Next err (Listing (sortBy responseFiles))])))"

subsection \<open>Concrete inputs\<close>

text \<open>
  A regular file of a given size, a directory, a parser that accepts the empty object only,
  and a server whose document names a user: the inputs at which the statements below are
  evaluated.
\<close>

definition file_stats :: "nat \<Rightarrow> stats" where
  "file_stats n =
     \<lparr>st_isFile = True, st_isDirectory = False, st_isSymbolicLink = False,
      st_size = n, st_ctime = 1, st_mtime = 2, st_birthtime = 0\<rparr>"

definition dir_stats :: stats where
  "dir_stats =
     \<lparr>st_isFile = False, st_isDirectory = True, st_isSymbolicLink = False,
      st_size = 4096, st_ctime = 1, st_mtime = 2, st_birthtime = 0\<rparr>"

definition parse_demo :: "string \<Rightarrow> error + jsval" where
  "parse_demo t = (if t = ''{}'' then Inr (Obj []) else Inl (External ''Unexpected token''))"

definition server_demo :: "bool \<Rightarrow> string \<Rightarrow> server" where
  "server_demo flag t =
     \<lparr>json = Obj [(''user'', Str ''u1'')], knownWrite = flag, config_file = t,
      log = [], writes = []\<rparr>"

section \<open>Properties\<close>

subsection \<open>Batch move\<close>

text \<open>
  Claim C1.  In the array form, move is to run the self-containment check on every pair
  \<open>(initial[i], ending[i])\<close> and fail with SelfMove when it holds for one.  The source
  passes the two arrays themselves to \<^verbatim>\<open>isSelf\<close>, not the pair.  For the batch
  \<open>[a, x] \<rightarrow> [a/b, y]\<close> the first destination lies under its source, and the move of
  \<open>a\<close> into \<open>a/b\<close> is handed to the file system all the same; the batch ends without
  error.
\<close>

theorem move_batch_checks_the_arrays:
  "isSelf (server_path ''/srv'') (Str ''a/b'') (Str ''a'') \<and>
   move (server_path ''/srv'') (\<lambda>a. None) [0, 0]
        (Arr [Str ''a'', Str ''x'']) (Arr [Str ''a/b'', Str ''y'']) =
     [Issued (FsMove ''/srv/a'' ''/srv/a/b''), Issued (FsMove ''/srv/x'' ''/srv/y''),
      Next None NoValue]"
  by code_simp

theorem move_batch_checks_the_arrays_witness:
  "Next (Some SelfMove) NoValue \<notin>
     set (move (server_path ''/srv'') (\<lambda>a. None) [0, 0]
            (Arr [Str ''a'', Str ''x'']) (Arr [Str ''a/b'', Str ''y'']))"
  using move_batch_checks_the_arrays by simp

text \<open>
  Claim C2.  Two arrays of different lengths are to fail with LengthMismatch.  The source
  finds the mismatch only by reading \<^verbatim>\<open>ending[key]\<close> for the keys of \<open>initial\<close>, so a
  longer \<open>ending\<close> goes unnoticed: \<open>[a] \<rightarrow> [b, c]\<close> moves \<open>a\<close> to \<open>b\<close> and
  succeeds.
\<close>

theorem move_shorter_source_no_mismatch:
  "move (server_path ''/srv'') (\<lambda>a. None) [0] (Arr [Str ''a'']) (Arr [Str ''b'', Str ''c'']) =
     [Issued (FsMove ''/srv/a'' ''/srv/b''), Next None NoValue]"
  by code_simp

theorem move_shorter_source_no_mismatch_witness:
  "Next (Some LengthMismatch) NoValue \<notin>
     set (move (server_path ''/srv'') (\<lambda>a. None) [0] (Arr [Str ''a'']) (Arr [Str ''b'', Str ''c'']))"
  using move_shorter_source_no_mismatch by simp

subsection \<open>decompress\<close>

text \<open>
  Claim C4.  An argument that is neither a path nor an array is to fail with
  InvalidArgumentType.  The first branch of the source takes every value that is not an
  array, so the number 42 is resolved like a path and handed to the engine; the branch with
  the error is never reached.
\<close>

theorem decompress_number_is_extracted:
  "decompress p io sched (Num 42) =
     [Issued (Extract (p (Num 42)) (toDir (p (Num 42)))),
      Next (io (Extract (p (Num 42)) (toDir (p (Num 42))))) NoValue]"
  by (simp add: decompress_def Let_def)

text \<open>
  Claim C5.  A batch is to report its result once, after its suboperations have settled.
  In the array form of decompress every archive that is unpacked calls \<^verbatim>\<open>next\<close> itself:
  with two archives \<^verbatim>\<open>next\<close> is called twice, and the first call comes while the second
  archive is still being unpacked (the schedule \<open>[0]\<close> answers the first request only).
\<close>

theorem decompress_batch_calls_next_per_archive:
  "decompress (server_path ''/srv'') (\<lambda>a. None) [0, 0] (Arr [Str ''a.tar'', Str ''b.tar'']) =
     [Issued (Extract ''/srv/a.tar'' ''/srv''), Issued (Extract ''/srv/b.tar'' ''/srv''),
      Next None NoValue, Next None NoValue] \<and>
   decompress (server_path ''/srv'') (\<lambda>a. None) [0] (Arr [Str ''a.tar'', Str ''b.tar'']) =
     [Issued (Extract ''/srv/a.tar'' ''/srv''), Issued (Extract ''/srv/b.tar'' ''/srv''),
      Next None NoValue]"
  by code_simp

subsection \<open>readEnd\<close>











subsection \<open>stat and directory\<close>

text \<open>
  Claim C7.  A failure of the MIME detection is to leave both stat and the listing
  successful, with \<open>unknown\<close> for the type.  stat does so.  In the listing
  \<^verbatim>\<open>do_mime\<close> passes the error of the detection on to \<^verbatim>\<open>Async.auto\<close>, so a directory
  \<open>d\<close> with the one child \<open>a\<close>, whose detection fails, is answered with that error and
  without the entry.
\<close>

theorem directory_fails_on_mime_error:
  "stat (server_path ''/srv'') (\<lambda>q. Inr (if q = ''/srv/d'' then dir_stats else file_stats 3))
       (\<lambda>q. Inl (External ''magic'')) (Str ''d/a'') =
     [Next None (Meta \<lparr>md_name = ''a'', md_created = 1, md_modified = 2, md_size = 3,
        md_directory = False, md_file = True, md_symlink = False, md_mime = ''unknown''\<rparr>)] \<and>
   directory (server_path ''/srv'') (\<lambda>q. Inr (if q = ''/srv/d'' then dir_stats else file_stats 3))
       (\<lambda>q. Inr [''a'']) (\<lambda>q. Inl (External ''magic'')) sortBy (Str ''d'') =
     [Next (Some (External ''magic'')) (Listing (sortBy []))]"
  by (simp add: stat_def directory_def server_path_def dir_stats_def file_stats_def base_def
      path_join_def mime_or_unknown_def)

subsection \<open>The watcher of the configuration file\<close>

text \<open>
  Claim C8.  On a change event: with the flag set, the flag is cleared and nothing else
  changes.  With the flag clear and a file that parses, the parsed value becomes the
  in-memory document.  With the flag clear and a file that does not parse, the flag is set,
  a write of the current in-memory document is requested (and, when it succeeds, the file
  holds that document, otherwise the file stays as it is), and the in-memory document is
  unchanged.
\<close>

theorem on_change_cases:
  "(knownWrite s \<longrightarrow> on_change readJson stringify writeErr s = s\<lparr>knownWrite := False\<rparr>) \<and>
   (\<not> knownWrite s \<and> readJson (config_file s) = Inr object \<longrightarrow>
      on_change readJson stringify writeErr s
        = s\<lparr>json := object, knownWrite := False, log := log s @ [Debug]\<rparr>) \<and>
   (\<not> knownWrite s \<and> readJson (config_file s) = Inl err \<longrightarrow>
      knownWrite (on_change readJson stringify writeErr s) \<and>
      json (on_change readJson stringify writeErr s) = json s \<and>
      writes (on_change readJson stringify writeErr s) = writes s @ [json s] \<and>
      (writeErr = None \<longrightarrow>
         config_file (on_change readJson stringify writeErr s) = stringify (json s)) \<and>
      (writeErr \<noteq> None \<longrightarrow>
         config_file (on_change readJson stringify writeErr s) = config_file s))"
  by (auto simp: on_change_def readJson_callback_def undo_changes_def Let_def split: option.splits)

theorem on_change_cases_witness:
  "on_change parse_demo toString None (server_demo True ''{}'') = server_demo False ''{}'' \<and>
   on_change parse_demo toString None (server_demo False ''{}'')
     = \<lparr>json = Obj [], knownWrite = False, config_file = ''{}'', log = [Debug], writes = []\<rparr> \<and>
   knownWrite (on_change parse_demo toString None (server_demo False ''{'')) \<and>
   json (on_change parse_demo toString None (server_demo False ''{''))
     = Obj [(''user'', Str ''u1'')] \<and>
   writes (on_change parse_demo toString None (server_demo False ''{''))
     = [Obj [(''user'', Str ''u1'')]] \<and>
   config_file (on_change parse_demo toString None (server_demo False ''{''))
     = ''[object Object]''"
  using on_change_cases [where s = "server_demo True ''{}''" and readJson = parse_demo
      and stringify = toString and writeErr = None]
    on_change_cases [where s = "server_demo False ''{}''" and readJson = parse_demo
      and stringify = toString and writeErr = None and object = "Obj []"]
    on_change_cases [where s = "server_demo False ''{''" and readJson = parse_demo
      and stringify = toString and writeErr = None and err = "External ''Unexpected token''"]
  by (simp add: server_demo_def parse_demo_def)

subsection \<open>compress\<close>

lemma collect_entries_filter:
  "collect_entries p to fs acc =
     acc @ map (\<lambda>f. replace (p f) (p Undefined) []) (filter (\<lambda>f. \<not> isSelf p to f) fs)"
  by (induction fs arbitrary: acc) simp_all

lemma replace_prefix:
  assumes "startsWith s pat"
  shows "pat @ replace s pat [] = s"
proof (cases s)
  case Nil
  with assms show ?thesis by (simp add: startsWith_def)
next
  case (Cons c cs)
  with assms have "replace s pat [] = drop (length pat) s" by simp
  moreover from assms have "pat = take (length pat) s" by (simp add: startsWith_def)
  ultimately have "pat @ replace s pat [] = take (length pat) s @ drop (length pat) s"
    by simp
  then show ?thesis by simp
qed

text \<open>
  Claim C9.  For an array of sources and a destination directory: the sources under which
  the destination lies are left out without an error; when none is left the call fails with
  NoValidEntries, whatever the stream would do; otherwise the sources that are left, in
  their order and each with the sandbox root removed from its resolved path, are packed
  from the root into one archive in the destination directory, whatever the stream does
  then, and once the stream has closed the callback gets the archive name and no error.
  An entry of a source resolved under the root, put behind the root, is the resolved path
  again.
\<close>

theorem compress_batch:
  "compress p token [StreamClose] (Arr fs) (Str t) =
     (if filter (\<lambda>f. \<not> isSelf p (Str t) f) fs = [] then [Next (Some NoValidEntries) NoValue]
      else [Issued (CreateWriteStream (p (Str t)) (SaveAsName token)),
            Issued (TarPack (p Undefined)
              (Some (map (\<lambda>f. replace (p f) (p Undefined) [])
                       (filter (\<lambda>f. \<not> isSelf p (Str t) f) fs)))),
            Next None (Text (SaveAsName token))]) \<and>
   (filter (\<lambda>f. \<not> isSelf p (Str t) f) fs = [] \<longrightarrow>
      compress p token stream (Arr fs) (Str t) = [Next (Some NoValidEntries) NoValue]) \<and>
   (filter (\<lambda>f. \<not> isSelf p (Str t) f) fs \<noteq> [] \<longrightarrow>
      take 2 (compress p token stream (Arr fs) (Str t)) =
        [Issued (CreateWriteStream (p (Str t)) (SaveAsName token)),
         Issued (TarPack (p Undefined)
           (Some (map (\<lambda>f. replace (p f) (p Undefined) [])
                    (filter (\<lambda>f. \<not> isSelf p (Str t) f) fs))))]) \<and>
   (\<forall>f \<in> set fs. startsWith (p f) (p Undefined) \<longrightarrow>
       p Undefined @ replace (p f) (p Undefined) [] = p f)"
  by (simp add: compress_def collect_entries_filter replace_prefix)

theorem compress_batch_witness:
  "compress (server_path ''/srv'') ''AbCdEfGh'' [StreamClose]
       (Arr [Str ''a'', Str ''b'', Str ''c'']) (Str ''a/out'') =
     [Issued (CreateWriteStream ''/srv/a/out'' ''ptdlfm.AbCdEfGh.tar''),
      Issued (TarPack ''/srv'' (Some [''/b'', ''/c''])),
      Next None (Text ''ptdlfm.AbCdEfGh.tar'')] \<and>
   compress (server_path ''/srv'') ''AbCdEfGh'' [StreamClose]
       (Arr [Str ''a'', Str ''a/out'']) (Str ''a/out'') =
     [Next (Some NoValidEntries) NoValue] \<and>
   take 2 (compress (server_path ''/srv'') ''AbCdEfGh''
       [StreamError (External ''ENOSPC''), StreamClose]
       (Arr [Str ''a'', Str ''b'', Str ''c'']) (Str ''a/out'')) =
     [Issued (CreateWriteStream ''/srv/a/out'' ''ptdlfm.AbCdEfGh.tar''),
      Issued (TarPack ''/srv'' (Some [''/b'', ''/c'']))] \<and>
   ''/srv'' @ replace ''/srv/b'' ''/srv'' [] = ''/srv/b''"
  using compress_batch [where p = "server_path ''/srv''" and token = "''AbCdEfGh''"
      and stream = "[StreamError (External ''ENOSPC''), StreamClose]"
      and fs = "[Str ''a'', Str ''b'', Str ''c'']" and t = "''a/out''"]
    compress_batch [where p = "server_path ''/srv''" and token = "''AbCdEfGh''"
      and stream = "[StreamClose]" and fs = "[Str ''a'', Str ''a/out'']" and t = "''a/out''"]
  by (simp add: server_path_def isSelf_def startsWith_def SaveAsName_def)

subsection \<open>copy\<close>

text \<open>
  Claim C10.  When the options object has \<^verbatim>\<open>preserveTimestamps\<close> set to true and no key
  \<^verbatim>\<open>timestamps\<close>, the copy is requested with \<^verbatim>\<open>preserveTimestamps: false\<close>: the
  source reads the key \<^verbatim>\<open>timestamps\<close> only.
\<close>

theorem copy_ignores_preserveTimestamps:
  assumes "map_of kvs ''preserveTimestamps'' = Some (Bool True)"
    and "map_of kvs ''timestamps'' = None"
  shows "copy io p path newpath (Obj kvs) =
           (let a = FsCopy (p path) (p newpath)
                      (js_or (case map_of kvs ''clobber'' of None \<Rightarrow> Undefined | Some v \<Rightarrow> v)
                         (Bool False))
                      (Bool False)
            in [Issued a, Next (io a) NoValue])"
  using assms by (cases "map_of kvs ''clobber''") (simp_all add: copy_def js_or_def Let_def)

theorem copy_ignores_preserveTimestamps_witness:
  "map_of [(''preserveTimestamps'', Bool True)] ''preserveTimestamps'' = Some (Bool True) \<and>
   map_of [(''preserveTimestamps'', Bool True)] ''timestamps'' = None \<and>
   copy (\<lambda>a. None) (server_path ''/srv'') (Str ''a'') (Str ''b'')
       (Obj [(''preserveTimestamps'', Bool True)]) =
     [Issued (FsCopy ''/srv/a'' ''/srv/b'' (Bool False) (Bool False)), Next None NoValue]"
  using copy_ignores_preserveTimestamps [of "[(''preserveTimestamps'', Bool True)]"
      "\<lambda>a. None" "server_path ''/srv''" "Str ''a''" "Str ''b''"]
  by (simp add: server_path_def js_or_def)

subsection \<open>Further properties\<close>

lemma lastIndexOf_bounds: "- 1 \<le> lastIndexOf s c \<and> lastIndexOf s c < int (length s)"
proof (induction s)
  case Nil
  then show ?case by simp
next
  case (Cons x xs)
  then show ?case by (simp add: Let_def)
qed

lemma toDir_shorter:
  assumes "s \<noteq> []"
  shows "length (toDir s) < length s"
proof -
  have "0 < length s" using assms by simp
  then have "nat (lastIndexOf s CHR ''/'') < length s"
    using lastIndexOf_bounds [of s "CHR ''/''"] by linarith
  then show ?thesis by (simp add: toDir_def substring0_def)
qed

text \<open>
  decompress has no self-containment check, and none could fire: the destination is the
  resolved archive path cut before its last separator, which is shorter than the archive
  path, so it is never the archive path or below it.  A single archive is always handed to
  the engine.
\<close>

theorem decompress_destination_never_under_archive:
  assumes "p f \<noteq> []"
  shows "\<not> startsWith (toDir (p f)) (p f) \<and>
         (\<not> isArray f \<longrightarrow>
            decompress p io sched f =
              [Issued (Extract (p f) (toDir (p f))),
               Next (io (Extract (p f) (toDir (p f)))) NoValue])"
proof -
  have "length (toDir (p f)) < length (p f)"
    using assms by (rule toDir_shorter)
  then have "length (take (length (p f)) (toDir (p f))) \<noteq> length (p f)"
    by simp
  then have "take (length (p f)) (toDir (p f)) \<noteq> p f"
    by metis
  then show ?thesis
    by (simp add: startsWith_def decompress_def Let_def)
qed

theorem decompress_destination_never_under_archive_witness:
  "server_path ''/srv'' (Str ''a/b.tar'') \<noteq> [] \<and>
   \<not> startsWith (toDir ''/srv/a/b.tar'') ''/srv/a/b.tar'' \<and>
   decompress (server_path ''/srv'') (\<lambda>a. None) [] (Str ''a/b.tar'') =
     [Issued (Extract ''/srv/a/b.tar'' ''/srv/a''), Next None NoValue]"
  using decompress_destination_never_under_archive [where p = "server_path ''/srv''"
      and f = "Str ''a/b.tar''" and io = "\<lambda>a. None" and sched = "[]"]
  by (simp add: server_path_def toDir_def substring0_def Let_def)

text \<open>
  The single form of move: a destination at or under the source is refused with SelfMove
  and nothing is moved; otherwise the move is requested without overwriting, and an answer
  whose message starts with \<^verbatim>\<open>EEXIST:\<close> counts as success.
\<close>

theorem move_single:
  "\<not> isArray initial \<Longrightarrow> \<not> isArray ending \<Longrightarrow>
   move p io sched initial ending =
     (if isSelf p ending initial then [Next (Some SelfMove) NoValue]
      else [Issued (FsMove (p initial) (p ending)),
            Next (case io (FsMove (p initial) (p ending)) of
                    None \<Rightarrow> None
                  | Some e \<Rightarrow> if startsWith (message e) ''EEXIST:'' then None else Some e)
              NoValue])"
  by (simp add: move_def move_done_def Let_def split: option.splits)

theorem move_single_witness:
  "move (server_path ''/srv'') (\<lambda>a. None) [] (Str ''a'') (Str ''a/b'') =
     [Next (Some SelfMove) NoValue] \<and>
   move (server_path ''/srv'') (\<lambda>a. Some (External ''EEXIST: file already exists'')) []
       (Str ''a'') (Str ''b'') =
     [Issued (FsMove ''/srv/a'' ''/srv/b''), Next None NoValue]"
  using move_single [where p = "server_path ''/srv''" and io = "\<lambda>a. None" and sched = "[]"
      and initial = "Str ''a''" and ending = "Str ''a/b''"]
    move_single [where p = "server_path ''/srv''"
      and io = "\<lambda>a. Some (External ''EEXIST: file already exists'')" and sched = "[]"
      and initial = "Str ''a''" and ending = "Str ''b''"]
  by (simp add: server_path_def isSelf_def startsWith_def)

end
